theory Spec2Isabelle
  imports Complex_Main
begin

section \<open>Data model\<close>

text \<open>
  The adaptive image loader consists of four modules: \<^verbatim>\<open>velocity.ts\<close> (scroll velocity
  classifier), \<^verbatim>\<open>observer.ts\<close> (visibility tracker), \<^verbatim>\<open>loader.ts\<close> (low/high
  image store) and \<^verbatim>\<open>core.ts\<close> (the orchestrator), behind \<^verbatim>\<open>index.ts\<close>.

  Image elements are opaque handles of a type \<open>'e\<close> compared by identity. Calls to
  \<^verbatim>\<open>console.log\<close> have no effect on the state and are left out.

  A JavaScript number is a binary64 value; a finite one is a real number, and the model
  has the finite ones only (no \<^verbatim>\<open>NaN\<close>, no infinity). Comparisons and \<^verbatim>\<open>Math.abs\<close> are
  exact on them. Subtraction and division round their result, so they are not the
  subtraction and division of the reals: they are operations of the JavaScript engine,
  which the model takes from the host as \<open>num_sub\<close> and \<open>num_div\<close>.
\<close>

record number_ops =
  num_sub :: "real \<Rightarrow> real \<Rightarrow> real"
  num_div :: "real \<Rightarrow> real \<Rightarrow> real"

datatype ScrollSpeed = FAST | SLOW

record VelocityState =
  velocity :: real
  speed :: ScrollSpeed

record ImageResourceConfig =
  lowSrc :: string
  highSrc :: string

record 'e TrackedImage = ImageResourceConfig +
  element :: 'e
  upgraded :: bool

record InitConfig =
  slowVelocityThreshold :: real
  slowDurationMs :: real

text \<open>
  What the code reads and writes of an \<^verbatim>\<open>HTMLImageElement\<close>: its \<^verbatim>\<open>src\<close> and its
  \<^verbatim>\<open>data-label\<close> attribute (\<open>None\<close> when \<^verbatim>\<open>getAttribute\<close> returns \<^verbatim>\<open>null\<close>).
\<close>

record img_element =
  src :: string
  data_label :: "string option"

text \<open>
  All closures of one \<^verbatim>\<open>createCore\<close> call share the variables below; the record holds
  them together with the part of the host (document and window) they act on.
\<close>

record 'e world =
  \<comment> \<open>host: the document's image elements, the window's pending timeouts
      (handle and delay), the next timeout handle, whether \<^verbatim>\<open>handleScroll\<close> is
      registered as scroll listener, the targets of the IntersectionObserver, the
      engine's operations on numbers\<close>
  elements :: "'e \<Rightarrow> img_element"
  timeouts :: "(nat \<times> real) list"
  nextHandle :: nat
  scrollListener :: bool
  ioTargets :: "'e set"
  arith :: number_ops
  \<comment> \<open>\<^verbatim>\<open>loader.ts\<close>: \<^verbatim>\<open>images\<close>\<close>
  images :: "'e \<rightharpoonup> 'e TrackedImage"
  \<comment> \<open>\<^verbatim>\<open>observer.ts\<close>: \<^verbatim>\<open>visibilityMap\<close>\<close>
  visibilityMap :: "'e \<rightharpoonup> bool"
  \<comment> \<open>\<^verbatim>\<open>velocity.ts\<close>: \<^verbatim>\<open>lastY\<close>, \<^verbatim>\<open>lastTime\<close>, \<^verbatim>\<open>lastSpeed\<close>\<close>
  lastY :: real
  lastTime :: real
  lastSpeed :: ScrollSpeed
  \<comment> \<open>\<^verbatim>\<open>core.ts\<close>: the configuration and the orchestrator's variables;
      \<^verbatim>\<open>registeredImages\<close> is a Set, kept in insertion order\<close>
  config :: InitConfig
  registeredImages :: "'e list"
  currentSpeed :: ScrollSpeed
  currentVelocity :: real
  isSlowStable :: bool
  slowTimer :: "nat option"

section \<open>The host: timeouts\<close>

text \<open>
  \<^verbatim>\<open>window.setTimeout(f, delay)\<close> returns a fresh handle and queues the callback; a
  negative delay is clamped to zero by the platform. Every timeout of this program has
  the same callback, so a pending timeout is its handle and its delay.
  \<^verbatim>\<open>window.clearTimeout(h)\<close> removes the timeout with handle \<open>h\<close>, if pending.
\<close>

definition setTimeout :: "real \<Rightarrow> 'e world \<Rightarrow> nat \<times> 'e world" where
  "setTimeout delay w =
     (nextHandle w,
      w\<lparr>timeouts := timeouts w @ [(nextHandle w, max 0 delay)],
        nextHandle := Suc (nextHandle w)\<rparr>)"

definition clearTimeout :: "nat \<Rightarrow> 'e world \<Rightarrow> 'e world" where
  "clearTimeout h w = w\<lparr>timeouts := filter (\<lambda>p. fst p \<noteq> h) (timeouts w)\<rparr>"

definition pending :: "'e world \<Rightarrow> nat set" where
  "pending w = fst ` set (timeouts w)"

section \<open>\<^verbatim>\<open>loader.ts\<close>\<close>

definition loader_registerImage :: "'e \<Rightarrow> ImageResourceConfig \<Rightarrow> 'e world \<Rightarrow> 'e world" where
  "loader_registerImage el cfg w =
     w\<lparr>elements := (elements w)(el := (elements w el)\<lparr>src := lowSrc cfg\<rparr>),
       images := (images w)(el \<mapsto>
         \<lparr>lowSrc = lowSrc cfg, highSrc = highSrc cfg, element = el, upgraded = False\<rparr>)\<rparr>"

definition upgradeImage :: "'e \<Rightarrow> 'e world \<Rightarrow> bool \<times> 'e world" where
  "upgradeImage el w =
     (case images w el of
        None \<Rightarrow> (False, w)
      | Some tracked \<Rightarrow>
          if upgraded tracked then (False, w)
          else (True,
            w\<lparr>images := (images w)(el \<mapsto> tracked\<lparr>upgraded := True\<rparr>),
              elements := (elements w)(element tracked :=
                (elements w (element tracked))\<lparr>src := highSrc tracked\<rparr>)\<rparr>))"

definition isUpgraded :: "'e \<Rightarrow> 'e world \<Rightarrow> bool" where
  "isUpgraded el w = (case images w el of None \<Rightarrow> False | Some tracked \<Rightarrow> upgraded tracked)"

definition unregisterImage :: "'e \<Rightarrow> 'e world \<Rightarrow> 'e world" where
  "unregisterImage el w = w\<lparr>images := (images w)(el := None)\<rparr>"

definition loader_clear :: "'e world \<Rightarrow> 'e world" where
  "loader_clear w = w\<lparr>images := Map.empty\<rparr>"

section \<open>\<^verbatim>\<open>observer.ts\<close>\<close>

definition observeImage :: "'e \<Rightarrow> 'e world \<Rightarrow> 'e world" where
  "observeImage img w =
     w\<lparr>visibilityMap := (visibilityMap w)(img \<mapsto> False),
       ioTargets := insert img (ioTargets w)\<rparr>"

definition unobserveImage :: "'e \<Rightarrow> 'e world \<Rightarrow> 'e world" where
  "unobserveImage img w =
     w\<lparr>visibilityMap := (visibilityMap w)(img := None),
       ioTargets := ioTargets w - {img}\<rparr>"

definition isVisible :: "'e \<Rightarrow> 'e world \<Rightarrow> bool" where
  "isVisible img w = (visibilityMap w img = Some True)"

definition disconnect :: "'e world \<Rightarrow> 'e world" where
  "disconnect w = w\<lparr>visibilityMap := Map.empty, ioTargets := {}\<rparr>"

section \<open>\<^verbatim>\<open>velocity.ts\<close>\<close>

text \<open>
  \<^verbatim>\<open>handleScroll\<close> reads \<^verbatim>\<open>performance.now()\<close> and \<^verbatim>\<open>window.scrollY\<close>, here the
  arguments \<open>now\<close> and \<open>currentY\<close>; the threshold that the closure captures is the
  argument \<open>threshold\<close>. Its last statement hands the new state to the listener; the
  model returns that state next to the updated world, and the caller applies the
  listener.
\<close>

definition computeVelocity :: "real \<Rightarrow> real \<Rightarrow> 'e world \<Rightarrow> real" where
  "computeVelocity now currentY w =
     (let dy = \<bar>num_sub (arith w) currentY (lastY w)\<bar>;
          dt = num_sub (arith w) now (lastTime w)
      in if dt > 0 then num_div (arith w) dy dt else 0)"

definition classify :: "real \<Rightarrow> real \<Rightarrow> ScrollSpeed" where
  "classify threshold v = (if v \<le> threshold then SLOW else FAST)"

definition handleScroll :: "real \<Rightarrow> real \<Rightarrow> real \<Rightarrow> 'e world \<Rightarrow> VelocityState \<times> 'e world" where
  "handleScroll threshold now currentY w =
     (let v = computeVelocity now currentY w;
          sp = classify threshold v
      in (\<lparr>velocity = v, speed = sp\<rparr>,
          w\<lparr>lastY := currentY, lastTime := now, lastSpeed := sp\<rparr>))"

text \<open>
  \<^verbatim>\<open>initScrollVelocity\<close> records the scroll position and the time, registers
  \<^verbatim>\<open>handleScroll\<close> and emits an initial state to the listener (returned, as above).
\<close>

definition initScrollVelocity :: "real \<Rightarrow> real \<Rightarrow> 'e world \<Rightarrow> VelocityState \<times> 'e world" where
  "initScrollVelocity scrollY now w =
     (let w1 = w\<lparr>lastY := scrollY, lastTime := now, lastSpeed := SLOW, scrollListener := True\<rparr>
      in (\<lparr>velocity = 0, speed = lastSpeed w1\<rparr>, w1))"

definition velocity_destroy :: "'e world \<Rightarrow> 'e world" where
  "velocity_destroy w = w\<lparr>scrollListener := False\<rparr>"

section \<open>\<^verbatim>\<open>core.ts\<close>\<close>

definition tryUpgradeImage :: "'e \<Rightarrow> 'e world \<Rightarrow> 'e world" where
  "tryUpgradeImage img w =
     (if \<not> isSlowStable w then w
      else if img \<notin> set (registeredImages w) then w
      else if isUpgraded img w then w
      else snd (upgradeImage img w))"

definition attemptUpgradesForVisibleImages :: "'e world \<Rightarrow> 'e world" where
  "attemptUpgradesForVisibleImages w =
     foldl (\<lambda>s img. if \<not> isVisible img s then s else tryUpgradeImage img s)
       w (registeredImages w)"

text \<open>The callback passed to \<^verbatim>\<open>window.setTimeout\<close> in \<^verbatim>\<open>handleSpeedChange\<close>.\<close>

definition slowTimerCallback :: "'e world \<Rightarrow> 'e world" where
  "slowTimerCallback w =
     (let w1 = w\<lparr>slowTimer := None\<rparr>
      in if currentSpeed w1 = SLOW
         then attemptUpgradesForVisibleImages (w1\<lparr>isSlowStable := True\<rparr>)
         else w1)"

definition handleSpeedChange :: "'e world \<Rightarrow> 'e world" where
  "handleSpeedChange w =
     (if currentSpeed w = FAST then
        (let w1 = w\<lparr>isSlowStable := False\<rparr>
         in case slowTimer w1 of
              None \<Rightarrow> w1
            | Some h \<Rightarrow> (clearTimeout h w1)\<lparr>slowTimer := None\<rparr>)
      else if isSlowStable w then w
      else case slowTimer w of
             None \<Rightarrow>
               (let (h, w1) = setTimeout (slowDurationMs (config w)) w
                in w1\<lparr>slowTimer := Some h\<rparr>)
           | Some h \<Rightarrow> w)"

text \<open>The listener the core passes to \<^verbatim>\<open>initScrollVelocity\<close>.\<close>

definition velocityListener :: "VelocityState \<Rightarrow> 'e world \<Rightarrow> 'e world" where
  "velocityListener state w =
     handleSpeedChange (w\<lparr>currentSpeed := speed state, currentVelocity := velocity state\<rparr>)"

text \<open>The listener the core passes to \<^verbatim>\<open>createImageVisibilityObserver\<close>.\<close>

definition visibilityListener :: "'e \<Rightarrow> bool \<Rightarrow> 'e world \<Rightarrow> 'e world" where
  "visibilityListener el vis w =
     (if vis \<and> isSlowStable w then tryUpgradeImage el w else w)"

text \<open>
  The IntersectionObserver callback of \<^verbatim>\<open>observer.ts\<close>: the body of its loop for one
  entry (target and \<^verbatim>\<open>isIntersecting\<close>), and the loop.
\<close>

definition ioEntry :: "'e \<times> bool \<Rightarrow> 'e world \<Rightarrow> 'e world" where
  "ioEntry entry w =
     (let target = fst entry;
          vis = snd entry;
          previous = visibilityMap w target;
          w1 = w\<lparr>visibilityMap := (visibilityMap w)(target \<mapsto> vis)\<rparr>
      in if previous \<noteq> Some vis then visibilityListener target vis w1 else w1)"

definition ioCallback :: "('e \<times> bool) list \<Rightarrow> 'e world \<Rightarrow> 'e world" where
  "ioCallback entries w = foldl (\<lambda>s entry. ioEntry entry s) w entries"

text \<open>
  \<^verbatim>\<open>registerImage\<close> of the core: \<open>registerImage_setup\<close> is its body up to and including
  \<^verbatim>\<open>visibility.observeImage(element)\<close>, \<open>core_registerImage\<close> the whole body.
\<close>

definition setLabel :: "'e \<Rightarrow> string \<Rightarrow> 'e world \<Rightarrow> 'e world" where
  "setLabel el v w =
     (if data_label (elements w el) = None \<or> data_label (elements w el) = Some []
      then w\<lparr>elements := (elements w)(el := (elements w el)\<lparr>data_label := Some v\<rparr>)\<rparr>
      else w)"

definition registerImage_setup :: "'e \<Rightarrow> ImageResourceConfig \<Rightarrow> 'e world \<Rightarrow> 'e world" where
  "registerImage_setup el options w =
     (let w1 = w\<lparr>registeredImages :=
                 (if el \<in> set (registeredImages w) then registeredImages w
                  else registeredImages w @ [el])\<rparr>;
          w2 = setLabel el (highSrc options) w1;
          w3 = loader_registerImage el
                 \<lparr>lowSrc = lowSrc options, highSrc = highSrc options\<rparr> w2
      in observeImage el w3)"

definition core_registerImage :: "'e \<Rightarrow> ImageResourceConfig \<Rightarrow> 'e world \<Rightarrow> 'e world" where
  "core_registerImage el options w =
     (let w4 = registerImage_setup el options w
      in if isSlowStable w4 \<and> isVisible el w4 then tryUpgradeImage el w4 else w4)"

definition destroy :: "'e world \<Rightarrow> 'e world" where
  "destroy w =
     (let w1 = w\<lparr>registeredImages := []\<rparr>;
          w2 = disconnect w1;
          w3 = loader_clear w2;
          w4 = velocity_destroy w3
      in case slowTimer w4 of
           None \<Rightarrow> w4
         | Some h \<Rightarrow> (clearTimeout h w4)\<lparr>slowTimer := None\<rparr>)"

text \<open>
  \<^verbatim>\<open>createCore\<close> in a fresh window: \<open>ops\<close> is the engine's arithmetic on numbers,
  \<open>doc\<close> is the document's images, \<open>scrollY\<close> and
  \<open>now\<close> what \<^verbatim>\<open>window.scrollY\<close> and \<^verbatim>\<open>performance.now()\<close> return. The variables get
  their initial values, and \<^verbatim>\<open>initScrollVelocity\<close> calls the listener once.
\<close>

definition createCore ::
  "number_ops \<Rightarrow> InitConfig \<Rightarrow> ('e \<Rightarrow> img_element) \<Rightarrow> real \<Rightarrow> real \<Rightarrow> 'e world" where
  "createCore ops cfg doc scrollY now =
     (let w0 = \<lparr>elements = doc, timeouts = [], nextHandle = 1, scrollListener = False,
                ioTargets = {}, arith = ops, images = Map.empty, visibilityMap = Map.empty,
                lastY = 0, lastTime = 0, lastSpeed = SLOW,
                config = cfg, registeredImages = [],
                currentSpeed = SLOW, currentVelocity = 0,
                isSlowStable = False, slowTimer = None\<rparr>;
          (state, w1) = initScrollVelocity scrollY now w0
      in velocityListener state w1)"

section \<open>\<^verbatim>\<open>index.ts\<close>\<close>

text \<open>
  \<^verbatim>\<open>initResourceLoader\<close> wraps \<^verbatim>\<open>createCore\<close>. Neither function has a \<^verbatim>\<open>throw\<close> or any
  check of the configuration, so the result is always an initialised core.
\<close>

datatype 'e init_result = is_Rejected: Rejected string | Initialised "'e world"

definition initResourceLoader ::
  "number_ops \<Rightarrow> InitConfig \<Rightarrow> ('e \<Rightarrow> img_element) \<Rightarrow> real \<Rightarrow> real \<Rightarrow> 'e init_result" where
  "initResourceLoader ops cfg doc scrollY now =
     Initialised (createCore ops cfg doc scrollY now)"

section \<open>Events\<close>

text \<open>
  What can happen to a core, one callback at a time: a scroll event (delivered while
  \<^verbatim>\<open>handleScroll\<close> is registered), a pending timeout firing, the IntersectionObserver
  reporting entries (for its targets only), and the two calls of the public interface.
\<close>

datatype 'e event =
    Scroll real real
  | TimerFired nat
  | Intersections "('e \<times> bool) list"
  | RegisterImage 'e ImageResourceConfig
  | Destroy

definition scrollEvent :: "real \<Rightarrow> real \<Rightarrow> 'e world \<Rightarrow> 'e world" where
  "scrollEvent now currentY w =
     (let (state, w1) = handleScroll (slowVelocityThreshold (config w)) now currentY w
      in velocityListener state w1)"

definition fireTimer :: "nat \<Rightarrow> 'e world \<Rightarrow> 'e world" where
  "fireTimer h w =
     (if h \<in> pending w then slowTimerCallback (clearTimeout h w) else w)"

fun step :: "'e event \<Rightarrow> 'e world \<Rightarrow> 'e world" where
  "step (Scroll now currentY) w = (if scrollListener w then scrollEvent now currentY w else w)"
| "step (TimerFired h) w = fireTimer h w"
| "step (Intersections entries) w =
     ioCallback (filter (\<lambda>entry. fst entry \<in> ioTargets w) entries) w"
| "step (RegisterImage el options) w = core_registerImage el options w"
| "step Destroy w = destroy w"

definition run :: "'e event list \<Rightarrow> 'e world \<Rightarrow> 'e world" where
  "run evs w = foldl (\<lambda>s ev. step ev s) w evs"

section \<open>Sequences of loader calls\<close>

text \<open>
  A client of \<^verbatim>\<open>loader.ts\<close> calls the five methods of the controller in any order.
  \<open>upgrade_results el cs w\<close> lists what the calls \<^verbatim>\<open>upgradeImage(el)\<close> among \<open>cs\<close>
  return, and \<open>ends_registration el c\<close> says that \<open>c\<close> unregisters \<open>el\<close>, clears the
  loader or registers \<open>el\<close> again.
\<close>

datatype 'e loader_call =
    CallRegister 'e ImageResourceConfig
  | CallUpgrade 'e
  | CallIsUpgraded 'e
  | CallUnregister 'e
  | CallClear

fun loader_exec :: "'e loader_call \<Rightarrow> 'e world \<Rightarrow> 'e world" where
  "loader_exec (CallRegister el cfg) w = loader_registerImage el cfg w"
| "loader_exec (CallUpgrade el) w = snd (upgradeImage el w)"
| "loader_exec (CallIsUpgraded el) w = w"
| "loader_exec (CallUnregister el) w = unregisterImage el w"
| "loader_exec CallClear w = loader_clear w"

fun loader_execs :: "'e loader_call list \<Rightarrow> 'e world \<Rightarrow> 'e world" where
  "loader_execs [] w = w"
| "loader_execs (c # cs) w = loader_execs cs (loader_exec c w)"

fun upgrade_results :: "'e \<Rightarrow> 'e loader_call list \<Rightarrow> 'e world \<Rightarrow> bool list" where
  "upgrade_results el [] w = []"
| "upgrade_results el (c # cs) w =
     (if c = CallUpgrade el then [fst (upgradeImage el w)] else [])
       @ upgrade_results el cs (loader_exec c w)"

fun ends_registration :: "'e \<Rightarrow> 'e loader_call \<Rightarrow> bool" where
  "ends_registration el (CallRegister x cfg) = (x = el)"
| "ends_registration el (CallUnregister x) = (x = el)"
| "ends_registration el CallClear = True"
| "ends_registration el _ = False"

section \<open>A concrete core\<close>

text \<open>
  The configuration of the repository's demo (threshold 0.4 px/ms, 200 ms), a document
  whose images have no source and no label yet, and the core created in it at scroll
  position 0 and time 0. Images are numbered. The arithmetic of the examples is the exact
  one. The examples that state the velocity computed for a sample use small integers and
  dyadic fractions, on which binary64 subtraction and division are exact as well.
\<close>

definition exact_ops :: number_ops where
  "exact_ops = \<lparr>num_sub = (\<lambda>a b. a - b), num_div = (\<lambda>a b. a / b)\<rparr>"

definition demo_config :: InitConfig where
  "demo_config = \<lparr>slowVelocityThreshold = 0.4, slowDurationMs = 200\<rparr>"

definition demo_doc :: "nat \<Rightarrow> img_element" where
  "demo_doc = (\<lambda>el. \<lparr>src = [], data_label = None\<rparr>)"

definition demo_image :: ImageResourceConfig where
  "demo_image = \<lparr>lowSrc = ''low.jpg'', highSrc = ''high.jpg''\<rparr>"

definition demo_core :: "nat world" where
  "demo_core = createCore exact_ops demo_config demo_doc 0 0"


text \<open>
  The core in its stable SLOW state with one registered, visible image: image 1 is
  registered, reported as intersecting, and the debounce timeout then fires.
\<close>

definition demo_stable :: "nat world" where
  "demo_stable =
     run [RegisterImage 1 demo_image, Intersections [(1, True)], TimerFired 1] demo_core"

text \<open>
  Two images registered, image 1 reported as intersecting, the first debounce timeout
  still pending; and the same core after that timeout has fired.
\<close>

definition demo_visible :: "nat world" where
  "demo_visible =
     run [RegisterImage 1 demo_image, RegisterImage 2 demo_image, Intersections [(1, True)]]
       demo_core"

definition demo_two :: "nat world" where
  "demo_two = fireTimer 1 demo_visible"

section \<open>The debounce timeout of a running core\<close>

text \<open>
  What holds of the timeout whenever a callback starts: the window's pending timeouts
  are exactly the one \<^verbatim>\<open>slowTimer\<close> refers to, a timeout is pending only while the speed
  is SLOW and the core is not yet stable, and the core is stable only while the speed is
  SLOW.
\<close>

definition timer_inv :: "'e world \<Rightarrow> bool" where
  "timer_inv w =
     (map fst (timeouts w) = (case slowTimer w of None \<Rightarrow> [] | Some h \<Rightarrow> [h]) \<and>
      (slowTimer w \<noteq> None \<longrightarrow> currentSpeed w = SLOW \<and> \<not> isSlowStable w) \<and>
      (isSlowStable w \<longrightarrow> currentSpeed w = SLOW))"

section \<open>Events that report an image as visible\<close>

definition reports_visible :: "'e \<Rightarrow> 'e event \<Rightarrow> bool" where
  "reports_visible el ev =
     (case ev of Intersections entries \<Rightarrow> (el, True) \<in> set entries | _ \<Rightarrow> False)"

section \<open>The loader\<close>

lemma demo_core_eq:
  "demo_core =
     \<lparr>elements = demo_doc, timeouts = [(1, 200)], nextHandle = 2, scrollListener = True,
      ioTargets = {}, arith = exact_ops, images = Map.empty, visibilityMap = Map.empty,
      lastY = 0, lastTime = 0, lastSpeed = SLOW,
      config = demo_config, registeredImages = [],
      currentSpeed = SLOW, currentVelocity = 0,
      isSlowStable = False, slowTimer = Some 1\<rparr>"
  by (simp add: demo_core_def createCore_def initScrollVelocity_def velocityListener_def
      handleSpeedChange_def setTimeout_def demo_config_def Let_def)

lemma upgradeImage_refused:
  "images w el = None \<or> isUpgraded el w \<Longrightarrow> upgradeImage el w = (False, w)"
  by (auto simp: upgradeImage_def isUpgraded_def split: option.splits)

lemma upgradeImage_performed:
  assumes "images w el = Some t" "\<not> upgraded t"
  shows "upgradeImage el w =
     (True, w\<lparr>images := (images w)(el \<mapsto> t\<lparr>upgraded := True\<rparr>),
              elements := (elements w)(element t := (elements w (element t))\<lparr>src := highSrc t\<rparr>)\<rparr>)"
  using assms by (simp add: upgradeImage_def)

lemma isUpgraded_loader_exec:
  "isUpgraded el w \<Longrightarrow> \<not> ends_registration el c \<Longrightarrow> isUpgraded el (loader_exec c w)"
  by (cases c)
    (auto simp: isUpgraded_def upgradeImage_def loader_registerImage_def unregisterImage_def
      split: option.splits)

lemma isUpgraded_loader_execs:
  "isUpgraded el w \<Longrightarrow> \<forall>c \<in> set cs. \<not> ends_registration el c \<Longrightarrow>
   isUpgraded el (loader_execs cs w)"
  by (induction cs arbitrary: w) (auto simp: isUpgraded_loader_exec)

lemma upgrade_results_upgraded:
  "isUpgraded el w \<Longrightarrow> \<forall>c \<in> set cs. \<not> ends_registration el c \<Longrightarrow>
   filter (\<lambda>r. r) (upgrade_results el cs w) = []"
  by (induction cs arbitrary: w) (auto simp: isUpgraded_loader_exec upgradeImage_refused)

lemma upgradeImage_True_upgraded:
  "fst (upgradeImage el w) \<Longrightarrow> isUpgraded el (snd (upgradeImage el w))"
  by (auto simp: upgradeImage_def isUpgraded_def split: option.splits if_splits)

lemma upgrade_results_at_most_once:
  "\<forall>c \<in> set cs. \<not> ends_registration el c \<Longrightarrow>
   length (filter (\<lambda>r. r) (upgrade_results el cs w)) \<le> 1"
proof (induction cs arbitrary: w)
  case Nil
  then show ?case by simp
next
  case (Cons c cs)
  show ?case
  proof (cases "c = CallUpgrade el \<and> fst (upgradeImage el w)")
    case True
    then have "isUpgraded el (loader_exec c w)"
      by (auto simp: upgradeImage_True_upgraded)
    with Cons.prems have "filter (\<lambda>r. r) (upgrade_results el cs (loader_exec c w)) = []"
      by (simp add: upgrade_results_upgraded)
    with True show ?thesis by simp
  next
    case False
    with Cons show ?thesis by auto
  qed
qed

section \<open>The orchestrator: what each callback leaves alone\<close>

lemma foldl_keeps:
  assumes "\<And>s x. g (f s x) = g s"
  shows "g (foldl f w xs) = g w"
  by (induction xs arbitrary: w) (simp_all add: assms)

lemma tryUpgradeImage_fields:
  "visibilityMap (tryUpgradeImage img w) = visibilityMap w"
  "registeredImages (tryUpgradeImage img w) = registeredImages w"
  "isSlowStable (tryUpgradeImage img w) = isSlowStable w"
  "slowTimer (tryUpgradeImage img w) = slowTimer w"
  "timeouts (tryUpgradeImage img w) = timeouts w"
  "currentSpeed (tryUpgradeImage img w) = currentSpeed w"
  "scrollListener (tryUpgradeImage img w) = scrollListener w"
  "ioTargets (tryUpgradeImage img w) = ioTargets w"
  by (simp_all add: tryUpgradeImage_def upgradeImage_def split: option.splits)

lemma isVisible_tryUpgradeImage: "isVisible x (tryUpgradeImage img w) = isVisible x w"
  by (simp add: isVisible_def tryUpgradeImage_fields)

lemma tracked_tryUpgradeImage:
  "(images (tryUpgradeImage img w) x = None) = (images w x = None)"
  by (simp add: tryUpgradeImage_def upgradeImage_def split: option.splits)

lemma isUpgraded_tryUpgradeImage:
  "isUpgraded x (tryUpgradeImage img w) =
     (isUpgraded x w \<or>
      x = img \<and> isSlowStable w \<and> img \<in> set (registeredImages w) \<and> images w img \<noteq> None)"
  by (auto simp: tryUpgradeImage_def upgradeImage_def isUpgraded_def split: option.splits)

lemma attempt_fields:
  "registeredImages (attemptUpgradesForVisibleImages w) = registeredImages w"
  "isSlowStable (attemptUpgradesForVisibleImages w) = isSlowStable w"
  "slowTimer (attemptUpgradesForVisibleImages w) = slowTimer w"
  "timeouts (attemptUpgradesForVisibleImages w) = timeouts w"
  "currentSpeed (attemptUpgradesForVisibleImages w) = currentSpeed w"
  "visibilityMap (attemptUpgradesForVisibleImages w) = visibilityMap w"
  "scrollListener (attemptUpgradesForVisibleImages w) = scrollListener w"
  "ioTargets (attemptUpgradesForVisibleImages w) = ioTargets w"
  unfolding attemptUpgradesForVisibleImages_def
  by (rule foldl_keeps, simp add: tryUpgradeImage_fields)+

lemma ioEntry_fields:
  "registeredImages (ioEntry entry w) = registeredImages w"
  "isSlowStable (ioEntry entry w) = isSlowStable w"
  "slowTimer (ioEntry entry w) = slowTimer w"
  "timeouts (ioEntry entry w) = timeouts w"
  "currentSpeed (ioEntry entry w) = currentSpeed w"
  "scrollListener (ioEntry entry w) = scrollListener w"
  "ioTargets (ioEntry entry w) = ioTargets w"
  by (simp_all add: ioEntry_def visibilityListener_def tryUpgradeImage_fields Let_def)

lemma ioCallback_fields:
  "registeredImages (ioCallback entries w) = registeredImages w"
  "isSlowStable (ioCallback entries w) = isSlowStable w"
  "slowTimer (ioCallback entries w) = slowTimer w"
  "timeouts (ioCallback entries w) = timeouts w"
  "currentSpeed (ioCallback entries w) = currentSpeed w"
  "scrollListener (ioCallback entries w) = scrollListener w"
  "ioTargets (ioCallback entries w) = ioTargets w"
  unfolding ioCallback_def
  by (rule foldl_keeps, simp add: ioEntry_fields)+

lemma isVisible_registerImage_setup: "isVisible el (registerImage_setup el options w) = False"
  by (simp add: registerImage_setup_def observeImage_def isVisible_def Let_def)

lemma core_registerImage_setup: "core_registerImage el options w = registerImage_setup el options w"
  by (simp add: core_registerImage_def isVisible_registerImage_setup Let_def)

lemma registerImage_setup_fields:
  "isSlowStable (registerImage_setup el options w) = isSlowStable w"
  "slowTimer (registerImage_setup el options w) = slowTimer w"
  "timeouts (registerImage_setup el options w) = timeouts w"
  "currentSpeed (registerImage_setup el options w) = currentSpeed w"
  by (simp_all add: registerImage_setup_def observeImage_def loader_registerImage_def
      setLabel_def Let_def)

lemma isUpgraded_core_registerImage:
  "isUpgraded x (core_registerImage el options w) = (x \<noteq> el \<and> isUpgraded x w)"
  by (simp add: core_registerImage_setup registerImage_setup_def observeImage_def
      loader_registerImage_def setLabel_def isUpgraded_def Let_def)

lemma timer_inv_velocityListener: "timer_inv w \<Longrightarrow> timer_inv (velocityListener state w)"
  by (cases "speed state")
    (auto simp: timer_inv_def velocityListener_def handleSpeedChange_def clearTimeout_def
      setTimeout_def Let_def split: option.splits)

lemma timer_inv_scrollEvent: "timer_inv w \<Longrightarrow> timer_inv (scrollEvent now y w)"
proof -
  assume a: "timer_inv w"
  have "timer_inv (snd (handleScroll (slowVelocityThreshold (config w)) now y w))"
    using a by (simp add: timer_inv_def handleScroll_def Let_def)
  then show ?thesis
    by (simp add: scrollEvent_def split_beta timer_inv_velocityListener)
qed

lemma timer_inv_fireTimer: "timer_inv w \<Longrightarrow> timer_inv (fireTimer h w)"
  by (auto simp: timer_inv_def fireTimer_def pending_def slowTimerCallback_def clearTimeout_def
      attempt_fields Let_def split: option.splits)

lemma timer_inv_destroy: "timer_inv w \<Longrightarrow> timer_inv (destroy w)"
  by (auto simp: timer_inv_def destroy_def disconnect_def loader_clear_def velocity_destroy_def
      clearTimeout_def Let_def split: option.splits)

lemma timer_inv_step: "timer_inv w \<Longrightarrow> timer_inv (step ev w)"
proof (cases ev)
  case (Scroll now y)
  assume "timer_inv w"
  with Scroll show ?thesis by (simp add: timer_inv_scrollEvent)
next
  case (TimerFired h)
  assume "timer_inv w"
  with TimerFired show ?thesis by (simp add: timer_inv_fireTimer)
next
  case (Intersections entries)
  assume "timer_inv w"
  with Intersections show ?thesis by (simp add: timer_inv_def ioCallback_fields)
next
  case (RegisterImage el options)
  assume "timer_inv w"
  with RegisterImage show ?thesis
    by (simp add: timer_inv_def core_registerImage_setup registerImage_setup_fields)
next
  case Destroy
  assume "timer_inv w"
  with Destroy show ?thesis by (simp add: timer_inv_destroy)
qed

lemma timer_inv_run: "timer_inv w \<Longrightarrow> timer_inv (run evs w)"
  unfolding run_def by (induction evs arbitrary: w) (simp_all add: timer_inv_step)

lemma timer_inv_createCore: "timer_inv (createCore ops cfg doc y t)"
  by (simp add: timer_inv_def createCore_def initScrollVelocity_def velocityListener_def
      handleSpeedChange_def setTimeout_def Let_def)

lemma timer_inv_reachable: "timer_inv (run evs (createCore ops cfg doc y t))"
  by (simp add: timer_inv_run timer_inv_createCore)

lemma pending_timer_inv:
  "timer_inv w \<Longrightarrow> pending w = (case slowTimer w of None \<Rightarrow> {} | Some h \<Rightarrow> {h})"
proof -
  assume "timer_inv w"
  then have "map fst (timeouts w) = (case slowTimer w of None \<Rightarrow> [] | Some h \<Rightarrow> [h])"
    by (simp add: timer_inv_def)
  then have "set (map fst (timeouts w)) = (case slowTimer w of None \<Rightarrow> {} | Some h \<Rightarrow> {h})"
    by (simp split: option.splits)
  then show ?thesis by (simp add: pending_def)
qed

section \<open>Evaluating the callbacks on the concrete core\<close>

lemmas callback_defs =
  run_def fireTimer_def pending_def clearTimeout_def slowTimerCallback_def
  attemptUpgradesForVisibleImages_def tryUpgradeImage_def upgradeImage_def isUpgraded_def
  isVisible_def ioCallback_def ioEntry_def visibilityListener_def core_registerImage_def
  registerImage_setup_def setLabel_def loader_registerImage_def observeImage_def
  scrollEvent_def handleScroll_def computeVelocity_def classify_def velocityListener_def
  handleSpeedChange_def setTimeout_def destroy_def disconnect_def loader_clear_def
  velocity_destroy_def demo_image_def demo_doc_def exact_ops_def Let_def

lemma demo_stable_eq:
  "demo_stable =
     \<lparr>elements = demo_doc(1 := \<lparr>src = ''high.jpg'', data_label = Some ''high.jpg''\<rparr>),
      timeouts = [], nextHandle = 2, scrollListener = True,
      ioTargets = {1}, arith = exact_ops,
      images = [1 \<mapsto> \<lparr>lowSrc = ''low.jpg'', highSrc = ''high.jpg'', element = 1, upgraded = True\<rparr>],
      visibilityMap = [1 \<mapsto> True],
      lastY = 0, lastTime = 0, lastSpeed = SLOW,
      config = demo_config, registeredImages = [1],
      currentSpeed = SLOW, currentVelocity = 0,
      isSlowStable = True, slowTimer = None\<rparr>"
  by (simp add: demo_stable_def demo_core_eq callback_defs)

lemma createCore_eq:
  "createCore ops cfg doc y t =
     \<lparr>elements = doc, timeouts = [(1, max 0 (slowDurationMs cfg))], nextHandle = 2,
      scrollListener = True, ioTargets = {}, arith = ops,
      images = Map.empty, visibilityMap = Map.empty,
      lastY = y, lastTime = t, lastSpeed = SLOW,
      config = cfg, registeredImages = [],
      currentSpeed = SLOW, currentVelocity = 0,
      isSlowStable = False, slowTimer = Some 1\<rparr>"
  by (simp add: createCore_def initScrollVelocity_def velocityListener_def
      handleSpeedChange_def setTimeout_def Let_def)

lemma demo_visible_eq:
  "demo_visible =
     \<lparr>elements = demo_doc(1 := \<lparr>src = ''low.jpg'', data_label = Some ''high.jpg''\<rparr>,
                          2 := \<lparr>src = ''low.jpg'', data_label = Some ''high.jpg''\<rparr>),
      timeouts = [(1, 200)], nextHandle = 2, scrollListener = True,
      ioTargets = {2, 1}, arith = exact_ops,
      images = [1 \<mapsto> \<lparr>lowSrc = ''low.jpg'', highSrc = ''high.jpg'', element = 1, upgraded = False\<rparr>,
                2 \<mapsto> \<lparr>lowSrc = ''low.jpg'', highSrc = ''high.jpg'', element = 2, upgraded = False\<rparr>],
      visibilityMap = [2 \<mapsto> False, 1 \<mapsto> True],
      lastY = 0, lastTime = 0, lastSpeed = SLOW,
      config = demo_config, registeredImages = [1, 2],
      currentSpeed = SLOW, currentVelocity = 0,
      isSlowStable = False, slowTimer = Some 1\<rparr>"
  by (simp add: demo_visible_def demo_core_eq callback_defs)

lemma demo_two_eq:
  "demo_two =
     \<lparr>elements = demo_doc(2 := \<lparr>src = ''low.jpg'', data_label = Some ''high.jpg''\<rparr>,
                          1 := \<lparr>src = ''high.jpg'', data_label = Some ''high.jpg''\<rparr>),
      timeouts = [], nextHandle = 2, scrollListener = True,
      ioTargets = {2, 1}, arith = exact_ops,
      images = [2 \<mapsto> \<lparr>lowSrc = ''low.jpg'', highSrc = ''high.jpg'', element = 2, upgraded = False\<rparr>,
                1 \<mapsto> \<lparr>lowSrc = ''low.jpg'', highSrc = ''high.jpg'', element = 1, upgraded = True\<rparr>],
      visibilityMap = [2 \<mapsto> False, 1 \<mapsto> True],
      lastY = 0, lastTime = 0, lastSpeed = SLOW,
      config = demo_config, registeredImages = [1, 2],
      currentSpeed = SLOW, currentVelocity = 0,
      isSlowStable = True, slowTimer = None\<rparr>"
  by (simp add: demo_two_def demo_visible_eq callback_defs)

section \<open>Teardown\<close>

lemma destroy_eq:
  "destroy w =
     w\<lparr>registeredImages := [], visibilityMap := Map.empty, ioTargets := {},
       images := Map.empty, scrollListener := False,
       timeouts := (case slowTimer w of None \<Rightarrow> timeouts w
                    | Some h \<Rightarrow> filter (\<lambda>p. fst p \<noteq> h) (timeouts w)),
       slowTimer := None\<rparr>"
  by (simp add: destroy_def disconnect_def loader_clear_def velocity_destroy_def
      clearTimeout_def Let_def split: option.splits)

lemma pending_destroy_reachable: "pending (destroy (run evs (createCore ops cfg doc y t))) = {}"
proof -
  have "timer_inv (destroy (run evs (createCore ops cfg doc y t)))"
    by (simp add: timer_inv_destroy timer_inv_reachable)
  then have "pending (destroy (run evs (createCore ops cfg doc y t))) =
      (case slowTimer (destroy (run evs (createCore ops cfg doc y t))) of
         None \<Rightarrow> {} | Some h \<Rightarrow> {h})"
    by (rule pending_timer_inv)
  then show ?thesis by (simp add: destroy_eq)
qed

section \<open>Upgrades and visibility\<close>

lemma attempt_foldl_filter:
  "foldl (\<lambda>s img. if \<not> isVisible img s then s else tryUpgradeImage img s) w xs =
   foldl (\<lambda>s img. tryUpgradeImage img s) w (filter (\<lambda>img. isVisible img w) xs)"
proof (induction xs arbitrary: w)
  case Nil
  then show ?case by simp
next
  case (Cons x xs)
  show ?case
  proof (cases "isVisible x w")
    case True
    have "foldl (\<lambda>s img. if \<not> isVisible img s then s else tryUpgradeImage img s)
            (tryUpgradeImage x w) xs =
          foldl (\<lambda>s img. tryUpgradeImage img s) (tryUpgradeImage x w)
            (filter (\<lambda>img. isVisible img (tryUpgradeImage x w)) xs)"
      by (rule Cons.IH)
    with True show ?thesis by (simp add: isVisible_tryUpgradeImage)
  next
    case False
    with Cons.IH [of w] show ?thesis by simp
  qed
qed

lemma attempt_as_filter:
  "attemptUpgradesForVisibleImages w =
   foldl (\<lambda>s img. tryUpgradeImage img s) w
     (filter (\<lambda>img. isVisible img w) (registeredImages w))"
  by (simp add: attemptUpgradesForVisibleImages_def attempt_foldl_filter)

lemma isUpgraded_foldl_try:
  "isUpgraded x (foldl (\<lambda>s img. tryUpgradeImage img s) w xs) =
     (isUpgraded x w \<or>
      x \<in> set xs \<and> isSlowStable w \<and> x \<in> set (registeredImages w) \<and> images w x \<noteq> None)"
proof (induction xs arbitrary: w)
  case Nil
  then show ?case by simp
next
  case (Cons y ys)
  have "isUpgraded x (foldl (\<lambda>s img. tryUpgradeImage img s) (tryUpgradeImage y w) ys) =
     (isUpgraded x (tryUpgradeImage y w) \<or>
      x \<in> set ys \<and> isSlowStable w \<and> x \<in> set (registeredImages w) \<and> images w x \<noteq> None)"
    by (simp add: Cons.IH tryUpgradeImage_fields tracked_tryUpgradeImage)
  then show ?case by (auto simp: isUpgraded_tryUpgradeImage)
qed

lemma isUpgraded_attempt:
  "isUpgraded x (attemptUpgradesForVisibleImages w) =
     (isUpgraded x w \<or>
      isSlowStable w \<and> x \<in> set (registeredImages w) \<and> isVisible x w \<and> images w x \<noteq> None)"
  by (auto simp: attempt_as_filter isUpgraded_foldl_try)

lemma isUpgraded_slowTimerCallback:
  "isUpgraded x (slowTimerCallback w) =
     (isUpgraded x w \<or>
      currentSpeed w = SLOW \<and> x \<in> set (registeredImages w) \<and> isVisible x w \<and>
      images w x \<noteq> None)"
  by (simp add: slowTimerCallback_def Let_def isUpgraded_attempt)
    (simp add: isUpgraded_def isVisible_def)

lemma isUpgraded_fireTimer:
  "isUpgraded x (fireTimer h w) =
     (isUpgraded x w \<or>
      h \<in> pending w \<and> currentSpeed w = SLOW \<and> x \<in> set (registeredImages w) \<and>
      isVisible x w \<and> images w x \<noteq> None)"
  by (simp add: fireTimer_def isUpgraded_slowTimerCallback)
    (simp add: clearTimeout_def isUpgraded_def isVisible_def)

lemma handleSpeedChange_loader:
  "images (handleSpeedChange w) = images w"
  "visibilityMap (handleSpeedChange w) = visibilityMap w"
  "elements (handleSpeedChange w) = elements w"
  "registeredImages (handleSpeedChange w) = registeredImages w"
  by (simp_all add: handleSpeedChange_def clearTimeout_def setTimeout_def Let_def
      split: option.splits)

lemma velocityListener_loader:
  "images (velocityListener state w) = images w"
  "visibilityMap (velocityListener state w) = visibilityMap w"
  "elements (velocityListener state w) = elements w"
  "registeredImages (velocityListener state w) = registeredImages w"
  by (simp_all add: velocityListener_def handleSpeedChange_loader)

lemma scrollEvent_loader:
  "images (scrollEvent now y w) = images w"
  "visibilityMap (scrollEvent now y w) = visibilityMap w"
  "elements (scrollEvent now y w) = elements w"
  "registeredImages (scrollEvent now y w) = registeredImages w"
  by (simp_all add: scrollEvent_def split_beta velocityListener_loader)
    (simp_all add: handleScroll_def Let_def)

lemma isUpgraded_ioEntry:
  "isUpgraded x (ioEntry entry w) =
     (isUpgraded x w \<or>
      entry = (x, True) \<and> visibilityMap w x \<noteq> Some True \<and> isSlowStable w \<and>
      x \<in> set (registeredImages w) \<and> images w x \<noteq> None)"
  by (cases entry)
    (auto simp: ioEntry_def Let_def visibilityListener_def isUpgraded_tryUpgradeImage,
     auto simp: isUpgraded_def)

lemma isVisible_ioEntry:
  "isVisible x (ioEntry entry w) = (if fst entry = x then snd entry else isVisible x w)"
  by (auto simp: ioEntry_def Let_def visibilityListener_def isVisible_tryUpgradeImage)
    (auto simp: isVisible_def)

lemma ioCallback_gated:
  "(x, True) \<notin> set entries \<Longrightarrow>
   isUpgraded x (ioCallback entries w) = isUpgraded x w \<and>
   (\<not> isVisible x w \<longrightarrow> \<not> isVisible x (ioCallback entries w))"
proof (induction entries arbitrary: w)
  case Nil
  then show ?case by (simp add: ioCallback_def)
next
  case (Cons e es)
  then have e: "e \<noteq> (x, True)" and es: "(x, True) \<notin> set es" by auto
  have c: "ioCallback (e # es) w = ioCallback es (ioEntry e w)"
    by (simp add: ioCallback_def)
  have u: "isUpgraded x (ioEntry e w) = isUpgraded x w"
    using e by (auto simp: isUpgraded_ioEntry)
  have v: "\<not> isVisible x w \<longrightarrow> \<not> isVisible x (ioEntry e w)"
    using e by (cases e) (auto simp: isVisible_ioEntry)
  from Cons.IH [OF es, of "ioEntry e w"] u v show ?case by (simp add: c)
qed

lemma isVisible_core_registerImage:
  "isVisible x (core_registerImage el options w) = (x \<noteq> el \<and> isVisible x w)"
  by (simp add: core_registerImage_setup registerImage_setup_def observeImage_def
      loader_registerImage_def setLabel_def isVisible_def Let_def)

lemma destroy_loader:
  "isUpgraded x (destroy w) = False" "isVisible x (destroy w) = False"
  by (simp_all add: destroy_def disconnect_def loader_clear_def velocity_destroy_def
      clearTimeout_def isUpgraded_def isVisible_def Let_def split: option.splits)

lemma isVisible_fireTimer: "isVisible x (fireTimer h w) = isVisible x w"
  by (simp add: fireTimer_def slowTimerCallback_def Let_def isVisible_def attempt_fields
      clearTimeout_def)

lemma step_gated:
  assumes "\<not> isVisible x w" "\<not> reports_visible x ev"
  shows "(isUpgraded x (step ev w) \<longrightarrow> isUpgraded x w) \<and> \<not> isVisible x (step ev w)"
proof (cases ev)
  case (Scroll now y)
  then show ?thesis using assms by (simp add: isUpgraded_def isVisible_def scrollEvent_loader)
next
  case (TimerFired h)
  then show ?thesis using assms by (simp add: isUpgraded_fireTimer isVisible_fireTimer)
next
  case (Intersections entries)
  with assms have "(x, True) \<notin> set (filter (\<lambda>entry. fst entry \<in> ioTargets w) entries)"
    by (simp add: reports_visible_def)
  from ioCallback_gated [OF this, of w] Intersections assms show ?thesis by simp
next
  case (RegisterImage el options)
  then show ?thesis
    using assms by (simp add: isUpgraded_core_registerImage isVisible_core_registerImage)
next
  case Destroy
  then show ?thesis by (simp add: destroy_loader)
qed

lemma run_gated:
  "\<not> isVisible x w \<Longrightarrow> \<not> isUpgraded x w \<Longrightarrow> \<forall>ev \<in> set evs. \<not> reports_visible x ev \<Longrightarrow>
   \<not> isUpgraded x (run evs w) \<and> \<not> isVisible x (run evs w)"
proof (induction evs arbitrary: w)
  case Nil
  then show ?case by (simp add: run_def)
next
  case (Cons ev evs)
  have r: "run (ev # evs) w = run evs (step ev w)" by (simp add: run_def)
  from Cons.prems have "\<not> reports_visible x ev" by simp
  with Cons.prems step_gated [of x w ev]
  have "\<not> isVisible x (step ev w)" "\<not> isUpgraded x (step ev w)" by auto
  with Cons.IH [of "step ev w"] Cons.prems show ?case by (simp add: r)
qed

section \<open>Speed changes and the debounce timeout\<close>

lemma velocityListener_FAST:
  "speed state = FAST \<Longrightarrow>
   velocityListener state w =
     w\<lparr>currentSpeed := FAST, currentVelocity := velocity state, isSlowStable := False,
       timeouts := (case slowTimer w of None \<Rightarrow> timeouts w
                    | Some h \<Rightarrow> filter (\<lambda>p. fst p \<noteq> h) (timeouts w)),
       slowTimer := None\<rparr>"
  by (simp add: velocityListener_def handleSpeedChange_def clearTimeout_def Let_def
      split: option.splits)

lemma pending_after_FAST:
  assumes "speed state = FAST" "timer_inv w"
  shows "pending (velocityListener state w) = {}"
proof -
  have "timer_inv (velocityListener state w)"
    using assms(2) by (rule timer_inv_velocityListener)
  then have "pending (velocityListener state w) =
      (case slowTimer (velocityListener state w) of None \<Rightarrow> {} | Some h \<Rightarrow> {h})"
    by (rule pending_timer_inv)
  with assms(1) show ?thesis by (simp add: velocityListener_FAST)
qed

lemma fireTimer_SLOW:
  "h \<in> pending w \<Longrightarrow> currentSpeed w = SLOW \<Longrightarrow>
   fireTimer h w =
     foldl (\<lambda>s img. tryUpgradeImage img s)
       (w\<lparr>timeouts := filter (\<lambda>p. fst p \<noteq> h) (timeouts w), slowTimer := None,
          isSlowStable := True\<rparr>)
       (filter (\<lambda>img. isVisible img w) (registeredImages w))"
  by (simp add: fireTimer_def slowTimerCallback_def clearTimeout_def Let_def attempt_as_filter)
    (simp add: isVisible_def)

lemma fireTimer_stable:
  "h \<in> pending w \<Longrightarrow> currentSpeed w = SLOW \<Longrightarrow>
   isSlowStable (fireTimer h w) \<and> slowTimer (fireTimer h w) = None \<and>
   h \<notin> pending (fireTimer h w)"
  by (auto simp: fireTimer_def slowTimerCallback_def clearTimeout_def Let_def attempt_fields
      pending_def)

lemma pending_is_SLOW:
  assumes "timer_inv w" "h \<in> pending w"
  shows "currentSpeed w = SLOW"
proof -
  from assms(1) have "pending w = (case slowTimer w of None \<Rightarrow> {} | Some h \<Rightarrow> {h})"
    by (rule pending_timer_inv)
  with assms(2) have "slowTimer w \<noteq> None" by (auto split: option.splits)
  with assms(1) show ?thesis by (simp add: timer_inv_def)
qed

section \<open>The velocity classifier\<close>



section \<open>The claims\<close>

text \<open>
  C1. \<^verbatim>\<open>upgradeImage\<close> returns \<^verbatim>\<open>true\<close> at most once per registration. For an element that
  the loader does not know or that is already upgraded it returns \<^verbatim>\<open>false\<close> and leaves
  the state as it is. Otherwise it returns \<^verbatim>\<open>true\<close>, sets the \<^verbatim>\<open>upgraded\<close> flag and gives
  the tracked element its high source. Once \<^verbatim>\<open>isUpgraded(el)\<close> holds, it holds after any
  sequence of loader calls that neither unregisters \<open>el\<close>, nor clears the loader, nor
  registers \<open>el\<close> again, and \<^verbatim>\<open>upgradeImage(el)\<close> then returns \<^verbatim>\<open>false\<close> without effect;
  and in any such sequence, from any state, at most one call \<^verbatim>\<open>upgradeImage(el)\<close>
  returns \<^verbatim>\<open>true\<close>.
\<close>

theorem upgradeImage_at_most_once:
  "(images w el = None \<or> isUpgraded el w \<longrightarrow> upgradeImage el w = (False, w)) \<and>
   (images w el = Some t \<and> \<not> upgraded t \<longrightarrow>
      fst (upgradeImage el w) = True \<and>
      isUpgraded el (snd (upgradeImage el w)) \<and>
      images (snd (upgradeImage el w)) el = Some (t\<lparr>upgraded := True\<rparr>) \<and>
      src (elements (snd (upgradeImage el w)) (element t)) = highSrc t) \<and>
   (isUpgraded el w \<and> (\<forall>c \<in> set cs. \<not> ends_registration el c) \<longrightarrow>
      isUpgraded el (loader_execs cs w) \<and>
      upgradeImage el (loader_execs cs w) = (False, loader_execs cs w)) \<and>
   ((\<forall>c \<in> set cs. \<not> ends_registration el c) \<longrightarrow>
      length (filter (\<lambda>r. r) (upgrade_results el cs w)) \<le> 1)"
proof (intro conjI impI)
  assume "images w el = None \<or> isUpgraded el w"
  then show "upgradeImage el w = (False, w)" by (rule upgradeImage_refused)
next
  assume a: "images w el = Some t \<and> \<not> upgraded t"
  then have eq: "upgradeImage el w =
     (True, w\<lparr>images := (images w)(el \<mapsto> t\<lparr>upgraded := True\<rparr>),
              elements := (elements w)(element t := (elements w (element t))\<lparr>src := highSrc t\<rparr>)\<rparr>)"
    by (simp add: upgradeImage_performed)
  show "fst (upgradeImage el w) = True" by (simp add: eq)
  show "isUpgraded el (snd (upgradeImage el w))" by (simp add: eq isUpgraded_def)
  show "images (snd (upgradeImage el w)) el = Some (t\<lparr>upgraded := True\<rparr>)" by (simp add: eq)
  show "src (elements (snd (upgradeImage el w)) (element t)) = highSrc t" by (simp add: eq)
next
  assume a: "isUpgraded el w \<and> (\<forall>c \<in> set cs. \<not> ends_registration el c)"
  then show u: "isUpgraded el (loader_execs cs w)" by (simp add: isUpgraded_loader_execs)
  then show "upgradeImage el (loader_execs cs w) = (False, loader_execs cs w)"
    by (simp add: upgradeImage_refused)
next
  assume "\<forall>c \<in> set cs. \<not> ends_registration el c"
  then show "length (filter (\<lambda>r. r) (upgrade_results el cs w)) \<le> 1"
    by (rule upgrade_results_at_most_once)
qed

theorem upgradeImage_at_most_once_witness:
  "images demo_core 1 = None \<and>
   upgradeImage 1 demo_core = (False, demo_core) \<and>
   (let w = loader_registerImage 1 demo_image demo_core;
        w' = snd (upgradeImage 1 w);
        cs = [CallUpgrade 1, CallRegister 2 demo_image, CallUpgrade 2, CallIsUpgraded 1,
              CallUnregister 2, CallUpgrade 1]
    in fst (upgradeImage 1 w) = True \<and>
       isUpgraded 1 w' \<and>
       src (elements w' 1) = ''high.jpg'' \<and>
       list_all (\<lambda>c. \<not> ends_registration 1 c) cs \<and>
       isUpgraded 1 (loader_execs cs w') \<and>
       upgradeImage 1 (loader_execs cs w') = (False, loader_execs cs w') \<and>
       upgrade_results 1 cs w = [True, False] \<and>
       length (filter (\<lambda>r. r) (upgrade_results 1 cs w)) \<le> 1)"
proof -
  define w where "w = loader_registerImage 1 demo_image demo_core"
  define t where "t = \<lparr>lowSrc = ''low.jpg'', highSrc = ''high.jpg'', element = 1::nat, upgraded = False\<rparr>"
  define w' where "w' = snd (upgradeImage 1 w)"
  define cs where "cs = [CallUpgrade 1, CallRegister 2 demo_image, CallUpgrade 2, CallIsUpgraded 1,
              CallUnregister 2, CallUpgrade (1::nat)]"
  have h0: "images demo_core 1 = None" by (simp add: demo_core_eq)
  have h1: "images w 1 = Some t \<and> \<not> upgraded t"
    by (simp add: w_def t_def loader_registerImage_def demo_image_def)
  have h2: "\<forall>c \<in> set cs. \<not> ends_registration 1 c" by (simp add: cs_def)
  have r0: "upgradeImage 1 demo_core = (False, demo_core)"
    using upgradeImage_at_most_once [of demo_core 1] h0 by simp
  have r1: "fst (upgradeImage 1 w) = True \<and> isUpgraded 1 w' \<and> src (elements w' (element t)) = highSrc t"
    using upgradeImage_at_most_once [of w 1 t] h1 by (simp add: w'_def)
  have r2: "isUpgraded 1 (loader_execs cs w') \<and>
       upgradeImage 1 (loader_execs cs w') = (False, loader_execs cs w')"
    using upgradeImage_at_most_once [of w' 1 _ cs] h2 r1 by simp
  have r3: "length (filter (\<lambda>r. r) (upgrade_results 1 cs w)) \<le> 1"
    using upgradeImage_at_most_once [of w 1 _ cs] h2 by simp
  have r4: "upgrade_results 1 cs w = [True, False]"
    by (simp add: cs_def w_def demo_core_eq loader_registerImage_def upgradeImage_def
        unregisterImage_def demo_image_def)
  have r5: "list_all (\<lambda>c. \<not> ends_registration 1 c) cs" by (simp add: cs_def)
  show ?thesis
    using h0 r0 r1 r2 r3 r4 r5
    unfolding Let_def w_def [symmetric] w'_def [symmetric] cs_def [symmetric]
    by (simp add: t_def)
qed

text \<open>
  C2. The claim: registering an image while the core is stable SLOW and the image is
  visible upgrades it during the call. In the stable core \<open>demo_stable\<close> image 1 is
  registered and tracked as visible. Registering it again leaves the core stable but the
  image not upgraded and showing its low source: \<^verbatim>\<open>observeImage\<close> has just reset its
  visibility, so the check that guards the immediate upgrade fails.
\<close>

theorem registerImage_visible_stable_not_upgraded:
  "isSlowStable demo_stable = True \<and>
   isVisible 1 demo_stable = True \<and>
   isSlowStable (core_registerImage 1 demo_image demo_stable) = True \<and>
   isUpgraded 1 (core_registerImage 1 demo_image demo_stable) = False \<and>
   src (elements (core_registerImage 1 demo_image demo_stable) 1) = ''low.jpg''"
  by (simp add: demo_stable_eq callback_defs)

text \<open>
  C3. The velocity listener, given a FAST sample in any state of the core, returns a
  state in which \<^verbatim>\<open>isSlowStable\<close> is false, the speed is FAST, \<^verbatim>\<open>slowTimer\<close> is \<^verbatim>\<open>null\<close> and
  the timeout that \<^verbatim>\<open>slowTimer\<close> referred to is no longer pending; in a core reached from
  \<^verbatim>\<open>createCore\<close> by any events no timeout is pending then, so that no timeout can fire
  afterwards. The same holds of a scroll event whose velocity is above the threshold. All
  of this is the effect of the one callback, before any other callback runs.
\<close>

theorem fast_wins_immediately:
  "(speed state = FAST \<longrightarrow>
      isSlowStable (velocityListener state w) = False \<and>
      currentSpeed (velocityListener state w) = FAST \<and>
      slowTimer (velocityListener state w) = None \<and>
      (\<forall>h. slowTimer w = Some h \<longrightarrow> h \<notin> pending (velocityListener state w)) \<and>
      pending (velocityListener state (run evs (createCore ops cfg doc scrollY start))) = {} \<and>
      (\<forall>h. step (TimerFired h)
              (velocityListener state (run evs (createCore ops cfg doc scrollY start))) =
            velocityListener state (run evs (createCore ops cfg doc scrollY start)))) \<and>
   (scrollListener w \<and> slowVelocityThreshold (config w) < computeVelocity now y w \<longrightarrow>
      isSlowStable (step (Scroll now y) w) = False \<and>
      currentSpeed (step (Scroll now y) w) = FAST \<and>
      slowTimer (step (Scroll now y) w) = None \<and>
      (\<forall>h. slowTimer w = Some h \<longrightarrow> h \<notin> pending (step (Scroll now y) w)))"
proof (intro conjI impI allI)
  assume f: "speed state = FAST"
  show "isSlowStable (velocityListener state w) = False"
    "currentSpeed (velocityListener state w) = FAST"
    "slowTimer (velocityListener state w) = None"
    by (simp_all add: velocityListener_FAST [OF f])
  show p: "pending (velocityListener state (run evs (createCore ops cfg doc scrollY start))) = {}"
    using f by (simp add: pending_after_FAST timer_inv_reachable)
  show "step (TimerFired h)
          (velocityListener state (run evs (createCore ops cfg doc scrollY start))) =
        velocityListener state (run evs (createCore ops cfg doc scrollY start))" for h
    by (simp add: fireTimer_def p)
  show "h \<notin> pending (velocityListener state w)" if "slowTimer w = Some h" for h
    using that by (auto simp: velocityListener_FAST [OF f] pending_def)
next
  assume a: "scrollListener w \<and> slowVelocityThreshold (config w) < computeVelocity now y w"
  define state where "state = fst (handleScroll (slowVelocityThreshold (config w)) now y w)"
  define w1 where "w1 = snd (handleScroll (slowVelocityThreshold (config w)) now y w)"
  have f: "speed state = FAST"
    using a by (simp add: state_def handleScroll_def classify_def Let_def)
  have s: "step (Scroll now y) w = velocityListener state w1"
    using a by (simp add: scrollEvent_def split_beta state_def w1_def)
  have w1: "slowTimer w1 = slowTimer w" "timeouts w1 = timeouts w"
    by (simp_all add: w1_def handleScroll_def Let_def)
  show "isSlowStable (step (Scroll now y) w) = False"
    "currentSpeed (step (Scroll now y) w) = FAST"
    "slowTimer (step (Scroll now y) w) = None"
    unfolding s by (simp_all add: velocityListener_FAST [OF f])
  show "h \<notin> pending (step (Scroll now y) w)" if "slowTimer w = Some h" for h
    using that unfolding s by (auto simp: velocityListener_FAST [OF f] pending_def w1)
qed

theorem fast_wins_immediately_witness:
  "isSlowStable demo_stable = True \<and>
   scrollListener demo_stable \<and>
   slowVelocityThreshold (config demo_stable) < computeVelocity 10 (- 9) demo_stable \<and>
   isSlowStable (step (Scroll 10 (- 9)) demo_stable) = False \<and>
   currentSpeed (step (Scroll 10 (- 9)) demo_stable) = FAST \<and>
   slowTimer demo_core = Some 1 \<and>
   1 \<in> pending demo_core \<and>
   1 \<notin> pending (velocityListener \<lparr>velocity = 0.9, speed = FAST\<rparr> demo_core) \<and>
   slowTimer (velocityListener \<lparr>velocity = 0.9, speed = FAST\<rparr> demo_core) = None \<and>
   isSlowStable (velocityListener \<lparr>velocity = 0.9, speed = FAST\<rparr> demo_core) = False \<and>
   pending (velocityListener \<lparr>velocity = 0.9, speed = FAST\<rparr>
     (run [RegisterImage 1 demo_image, Scroll 10 1] demo_core)) = {}"
proof -
  have h1: "scrollListener demo_stable \<and>
      slowVelocityThreshold (config demo_stable) < computeVelocity 10 (- 9) demo_stable"
    by (simp add: demo_stable_eq computeVelocity_def demo_config_def exact_ops_def)
  have h2: "speed \<lparr>velocity = 0.9, speed = FAST\<rparr> = FAST" by simp
  have h3: "slowTimer demo_core = Some 1" "1 \<in> pending demo_core"
    by (simp_all add: demo_core_eq pending_def)
  have h4: "isSlowStable demo_stable = True" by (simp add: demo_stable_eq)
  note a = fast_wins_immediately [where w = demo_stable and now = 10 and y = "- 9"
      and state = "\<lparr>velocity = 0.9, speed = FAST\<rparr>" and evs = "[]" and ops = exact_ops and cfg = demo_config
      and doc = demo_doc and scrollY = 0 and start = 0]
  note b = fast_wins_immediately [where w = demo_core and now = 10 and y = "- 9"
      and state = "\<lparr>velocity = 0.9, speed = FAST\<rparr>"
      and evs = "[RegisterImage 1 demo_image, Scroll 10 1]" and ops = exact_ops and cfg = demo_config
      and doc = demo_doc and scrollY = 0 and start = 0]
  from a h1 have a1: "isSlowStable (step (Scroll 10 (- 9)) demo_stable) = False"
    and a2: "currentSpeed (step (Scroll 10 (- 9)) demo_stable) = FAST" by blast+
  from b h2 h3 have b1: "1 \<notin> pending (velocityListener \<lparr>velocity = 0.9, speed = FAST\<rparr> demo_core)"
    by blast
  from b h2 have b2: "slowTimer (velocityListener \<lparr>velocity = 0.9, speed = FAST\<rparr> demo_core) = None"
    and b3: "isSlowStable (velocityListener \<lparr>velocity = 0.9, speed = FAST\<rparr> demo_core) = False"
    and b4: "pending (velocityListener \<lparr>velocity = 0.9, speed = FAST\<rparr>
       (run [RegisterImage 1 demo_image, Scroll 10 1] (createCore exact_ops demo_config demo_doc 0 0))) = {}"
    by blast+
  show ?thesis
    using h1 h3 h4 a1 a2 b1 b2 b3 b4 by (simp add: demo_core_def)
qed

text \<open>
  C4. A SLOW sample that finds the core stable, or a timeout pending, only records the
  speed and the velocity: no timeout is started or restarted. A SLOW sample that finds
  the core not stable and no timeout pending starts one timeout of \<^verbatim>\<open>slowDurationMs\<close>.
  When the timeout fires and the speed is SLOW, the core becomes stable and then calls
  \<^verbatim>\<open>tryUpgradeImage\<close> for exactly the registered images that are marked visible, in
  order; afterwards an image is upgraded iff it was upgraded before or is registered,
  marked visible and known to the loader. When the timeout fires and the speed is not
  SLOW, the firing only uses up the timeout (\<^verbatim>\<open>slowTimer\<close> becomes \<^verbatim>\<open>null\<close>): the stable
  flag, the loader and the images are as before. A timeout that is not pending does not
  fire. In a core reached from \<^verbatim>\<open>createCore\<close> by any events the speed is SLOW whenever a
  timeout is pending.
\<close>

theorem debounce_semantics:
  "(speed state = SLOW \<and> (isSlowStable w \<or> slowTimer w \<noteq> None) \<longrightarrow>
      velocityListener state w = w\<lparr>currentSpeed := SLOW, currentVelocity := velocity state\<rparr>) \<and>
   (speed state = SLOW \<and> \<not> isSlowStable w \<and> slowTimer w = None \<longrightarrow>
      velocityListener state w =
        w\<lparr>currentSpeed := SLOW, currentVelocity := velocity state,
          timeouts := timeouts w @ [(nextHandle w, max 0 (slowDurationMs (config w)))],
          nextHandle := Suc (nextHandle w),
          slowTimer := Some (nextHandle w)\<rparr>) \<and>
   (h \<in> pending w \<and> currentSpeed w = SLOW \<longrightarrow>
      isSlowStable (fireTimer h w) \<and>
      slowTimer (fireTimer h w) = None \<and>
      h \<notin> pending (fireTimer h w) \<and>
      fireTimer h w =
        foldl (\<lambda>s img. tryUpgradeImage img s)
          (w\<lparr>timeouts := filter (\<lambda>p. fst p \<noteq> h) (timeouts w), slowTimer := None,
             isSlowStable := True\<rparr>)
          (filter (\<lambda>img. isVisible img w) (registeredImages w)) \<and>
      (\<forall>img. isUpgraded img (fireTimer h w) =
         (isUpgraded img w \<or>
          img \<in> set (registeredImages w) \<and> isVisible img w \<and> images w img \<noteq> None))) \<and>
   (h \<in> pending w \<and> currentSpeed w \<noteq> SLOW \<longrightarrow>
      fireTimer h w =
        w\<lparr>timeouts := filter (\<lambda>p. fst p \<noteq> h) (timeouts w), slowTimer := None\<rparr>) \<and>
   (h \<notin> pending w \<longrightarrow> fireTimer h w = w) \<and>
   (h \<in> pending (run evs (createCore ops cfg doc scrollY start)) \<longrightarrow>
      currentSpeed (run evs (createCore ops cfg doc scrollY start)) = SLOW)"
proof (intro conjI impI allI)
  assume "speed state = SLOW \<and> (isSlowStable w \<or> slowTimer w \<noteq> None)"
  then show "velocityListener state w =
      w\<lparr>currentSpeed := SLOW, currentVelocity := velocity state\<rparr>"
    by (auto simp: velocityListener_def handleSpeedChange_def split: option.splits)
next
  assume "speed state = SLOW \<and> \<not> isSlowStable w \<and> slowTimer w = None"
  then show "velocityListener state w =
        w\<lparr>currentSpeed := SLOW, currentVelocity := velocity state,
          timeouts := timeouts w @ [(nextHandle w, max 0 (slowDurationMs (config w)))],
          nextHandle := Suc (nextHandle w),
          slowTimer := Some (nextHandle w)\<rparr>"
    by (simp add: velocityListener_def handleSpeedChange_def setTimeout_def)
next
  assume a: "h \<in> pending w \<and> currentSpeed w = SLOW"
  then show "isSlowStable (fireTimer h w)" "slowTimer (fireTimer h w) = None"
    "h \<notin> pending (fireTimer h w)"
    by (simp_all add: fireTimer_stable)
  from a show "fireTimer h w =
        foldl (\<lambda>s img. tryUpgradeImage img s)
          (w\<lparr>timeouts := filter (\<lambda>p. fst p \<noteq> h) (timeouts w), slowTimer := None,
             isSlowStable := True\<rparr>)
          (filter (\<lambda>img. isVisible img w) (registeredImages w))"
    by (simp add: fireTimer_SLOW)
  from a show "isUpgraded img (fireTimer h w) =
         (isUpgraded img w \<or>
          img \<in> set (registeredImages w) \<and> isVisible img w \<and> images w img \<noteq> None)" for img
    by (simp add: isUpgraded_fireTimer)
next
  assume "h \<in> pending w \<and> currentSpeed w \<noteq> SLOW"
  then show "fireTimer h w =
        w\<lparr>timeouts := filter (\<lambda>p. fst p \<noteq> h) (timeouts w), slowTimer := None\<rparr>"
    by (simp add: fireTimer_def slowTimerCallback_def clearTimeout_def Let_def)
next
  assume "h \<notin> pending w"
  then show "fireTimer h w = w" by (simp add: fireTimer_def)
next
  assume "h \<in> pending (run evs (createCore ops cfg doc scrollY start))"
  then show "currentSpeed (run evs (createCore ops cfg doc scrollY start)) = SLOW"
    by (rule pending_is_SLOW [OF timer_inv_reachable])
qed

theorem debounce_semantics_witness:
  "slowTimer demo_visible = Some 1 \<and>
   timeouts (velocityListener \<lparr>velocity = 0.1, speed = SLOW\<rparr> demo_visible) = [(1, 200)] \<and>
   isSlowStable demo_stable \<and>
   timeouts (velocityListener \<lparr>velocity = 0.1, speed = SLOW\<rparr> demo_stable) = [] \<and>
   slowTimer (velocityListener \<lparr>velocity = 0.1, speed = SLOW\<rparr>
     (velocityListener \<lparr>velocity = 0.9, speed = FAST\<rparr> demo_visible)) = Some 2 \<and>
   timeouts (velocityListener \<lparr>velocity = 0.1, speed = SLOW\<rparr>
     (velocityListener \<lparr>velocity = 0.9, speed = FAST\<rparr> demo_visible)) = [(2, 200)] \<and>
   1 \<in> pending demo_visible \<and>
   currentSpeed demo_visible = SLOW \<and>
   isSlowStable (fireTimer 1 demo_visible) \<and>
   isUpgraded 1 (fireTimer 1 demo_visible) \<and>
   \<not> isUpgraded 2 (fireTimer 1 demo_visible) \<and>
   src (elements (fireTimer 1 demo_visible) 1) = ''high.jpg'' \<and>
   src (elements (fireTimer 1 demo_visible) 2) = ''low.jpg'' \<and>
   \<not> isSlowStable (fireTimer 1 (demo_visible\<lparr>currentSpeed := FAST\<rparr>)) \<and>
   \<not> isUpgraded 1 (fireTimer 1 (demo_visible\<lparr>currentSpeed := FAST\<rparr>)) \<and>
   fireTimer 7 demo_visible = demo_visible"
proof -
  define fast where "fast = velocityListener \<lparr>velocity = 0.9, speed = FAST\<rparr> demo_visible"
  have fast: "fast = demo_visible\<lparr>currentSpeed := FAST, currentVelocity := 0.9,
      timeouts := [], slowTimer := None\<rparr>"
    by (simp add: fast_def demo_visible_eq velocityListener_def handleSpeedChange_def
        clearTimeout_def)
  have v: "slowTimer demo_visible = Some 1" "1 \<in> pending demo_visible"
    "currentSpeed demo_visible = SLOW" "7 \<notin> pending demo_visible"
    "timeouts demo_visible = [(1, 200)]" "\<not> isSlowStable demo_visible"
    "registeredImages demo_visible = [1, 2]"
    "isVisible 1 demo_visible" "\<not> isVisible 2 demo_visible"
    "\<not> isUpgraded 1 demo_visible" "\<not> isUpgraded 2 demo_visible"
    "images demo_visible 1 \<noteq> None"
    by (simp_all add: demo_visible_eq pending_def isVisible_def isUpgraded_def)
  have st: "isSlowStable demo_stable" "timeouts demo_stable = []"
    by (simp_all add: demo_stable_eq)
  have sl: "speed \<lparr>velocity = 0.1, speed = SLOW\<rparr> = SLOW" by simp
  note d = debounce_semantics [where state = "\<lparr>velocity = 0.1, speed = SLOW\<rparr>"
      and evs = "[]" and ops = exact_ops and cfg = demo_config and doc = demo_doc and scrollY = 0 and start = 0]
  from d [where w = demo_visible and h = 1] sl v
  have r1: "velocityListener \<lparr>velocity = 0.1, speed = SLOW\<rparr> demo_visible =
      demo_visible\<lparr>currentSpeed := SLOW, currentVelocity := 0.1\<rparr>"
    by simp
  have c2: "timeouts (velocityListener \<lparr>velocity = 0.1, speed = SLOW\<rparr> demo_visible) = [(1, 200)]"
    by (simp add: r1 v)
  from d [where w = demo_stable and h = 1] sl st
  have r2: "velocityListener \<lparr>velocity = 0.1, speed = SLOW\<rparr> demo_stable =
      demo_stable\<lparr>currentSpeed := SLOW, currentVelocity := 0.1\<rparr>"
    by simp
  have c4: "timeouts (velocityListener \<lparr>velocity = 0.1, speed = SLOW\<rparr> demo_stable) = []"
    by (simp add: r2 st)
  have f: "\<not> isSlowStable fast \<and> slowTimer fast = None" "nextHandle fast = 2"
    "slowDurationMs (config fast) = 200" "timeouts fast = []"
    by (simp_all add: fast demo_visible_eq demo_config_def)
  from d [where w = fast and h = 1] sl f
  have r3: "velocityListener \<lparr>velocity = 0.1, speed = SLOW\<rparr> fast =
      fast\<lparr>currentSpeed := SLOW, currentVelocity := 0.1,
          timeouts := timeouts fast @ [(2, 200)], nextHandle := 3, slowTimer := Some 2\<rparr>"
    by simp
  have c5: "slowTimer (velocityListener \<lparr>velocity = 0.1, speed = SLOW\<rparr> fast) = Some 2"
    and c6: "timeouts (velocityListener \<lparr>velocity = 0.1, speed = SLOW\<rparr> fast) = [(2, 200)]"
    by (simp_all add: r3 f)
  from d [where w = demo_visible and h = 1] v
  have r4: "isSlowStable (fireTimer 1 demo_visible)"
    and r5: "\<forall>img. isUpgraded img (fireTimer 1 demo_visible) =
         (isUpgraded img demo_visible \<or>
          img \<in> set (registeredImages demo_visible) \<and> isVisible img demo_visible \<and>
          images demo_visible img \<noteq> None)"
    by blast+
  from r5 v have r6: "isUpgraded 1 (fireTimer 1 demo_visible)"
    "\<not> isUpgraded 2 (fireTimer 1 demo_visible)"
    by simp_all
  have e: "src (elements (fireTimer 1 demo_visible) 1) = ''high.jpg''"
    "src (elements (fireTimer 1 demo_visible) 2) = ''low.jpg''"
    by (simp_all add: demo_visible_eq callback_defs)
  have g: "1 \<in> pending (demo_visible\<lparr>currentSpeed := FAST\<rparr>) \<and>
      currentSpeed (demo_visible\<lparr>currentSpeed := FAST\<rparr>) \<noteq> SLOW"
    by (simp add: demo_visible_eq pending_def)
  from d [where w = "demo_visible\<lparr>currentSpeed := FAST\<rparr>" and h = 1] g
  have r7: "fireTimer 1 (demo_visible\<lparr>currentSpeed := FAST\<rparr>) =
      demo_visible\<lparr>currentSpeed := FAST,
        timeouts := filter (\<lambda>p. fst p \<noteq> 1) (timeouts (demo_visible\<lparr>currentSpeed := FAST\<rparr>)),
        slowTimer := None\<rparr>"
    by simp
  have c14: "\<not> isSlowStable (fireTimer 1 (demo_visible\<lparr>currentSpeed := FAST\<rparr>))"
    and c15: "\<not> isUpgraded 1 (fireTimer 1 (demo_visible\<lparr>currentSpeed := FAST\<rparr>))"
    using v unfolding r7 by (simp_all add: isUpgraded_def)
  from d [where w = demo_visible and h = 7] v
  have r8: "fireTimer 7 demo_visible = demo_visible" by blast
  show ?thesis
    unfolding fast_def [symmetric]
    by (intro conjI v(1) c2 st(1) c4 c5 c6 v(2) v(3) r4 r6 e c14 c15 r8)
qed

text \<open>
  C5. \<^verbatim>\<open>tryUpgradeImage\<close> checks the state it is called in: it changes nothing unless the
  core is stable, the image is registered and the image is not yet upgraded, and then
  it is the loader's \<^verbatim>\<open>upgradeImage\<close>. An image whose tracked visibility is false is not
  upgraded: not by the timeout firing, not by an observer entry after which it is not
  visible, and not by any event that does not report it as intersecting, which also
  leaves it not visible; so an image that the observer never reports as intersecting is
  never upgraded, whatever the speed.
\<close>

theorem visibility_gating:
  "(\<not> isSlowStable w \<or> img \<notin> set (registeredImages w) \<or> isUpgraded img w \<longrightarrow>
      tryUpgradeImage img w = w) \<and>
   (isSlowStable w \<and> img \<in> set (registeredImages w) \<and> \<not> isUpgraded img w \<longrightarrow>
      tryUpgradeImage img w = snd (upgradeImage img w)) \<and>
   (\<not> isVisible el w \<longrightarrow> isUpgraded el (fireTimer h w) = isUpgraded el w) \<and>
   (\<not> isVisible el (ioEntry entry w) \<longrightarrow>
      isUpgraded el (ioEntry entry w) = isUpgraded el w) \<and>
   (\<not> isVisible el w \<and> \<not> isUpgraded el w \<and> \<not> reports_visible el ev \<longrightarrow>
      \<not> isUpgraded el (step ev w) \<and> \<not> isVisible el (step ev w)) \<and>
   ((\<forall>ev \<in> set evs. \<not> reports_visible el ev) \<longrightarrow>
      \<not> isUpgraded el (run evs (createCore ops cfg doc scrollY start)))"
proof (intro conjI impI)
  assume "\<not> isSlowStable w \<or> img \<notin> set (registeredImages w) \<or> isUpgraded img w"
  then show "tryUpgradeImage img w = w" by (auto simp: tryUpgradeImage_def)
next
  assume "isSlowStable w \<and> img \<in> set (registeredImages w) \<and> \<not> isUpgraded img w"
  then show "tryUpgradeImage img w = snd (upgradeImage img w)"
    by (simp add: tryUpgradeImage_def)
next
  assume "\<not> isVisible el w"
  then show "isUpgraded el (fireTimer h w) = isUpgraded el w"
    by (simp add: isUpgraded_fireTimer)
next
  assume "\<not> isVisible el (ioEntry entry w)"
  then show "isUpgraded el (ioEntry entry w) = isUpgraded el w"
    by (auto simp: isUpgraded_ioEntry isVisible_ioEntry)
next
  assume a: "\<not> isVisible el w \<and> \<not> isUpgraded el w \<and> \<not> reports_visible el ev"
  with step_gated [of el w ev]
  show "\<not> isUpgraded el (step ev w)" "\<not> isVisible el (step ev w)" by auto
next
  assume a: "\<forall>ev \<in> set evs. \<not> reports_visible el ev"
  have "\<not> isVisible el (createCore ops cfg doc scrollY start)"
    "\<not> isUpgraded el (createCore ops cfg doc scrollY start)"
    by (simp_all add: createCore_eq isVisible_def isUpgraded_def)
  with a run_gated [of el "createCore ops cfg doc scrollY start" evs]
  show "\<not> isUpgraded el (run evs (createCore ops cfg doc scrollY start))" by simp
qed

theorem visibility_gating_witness:
  "\<not> isSlowStable demo_visible \<and>
   tryUpgradeImage 1 demo_visible = demo_visible \<and>
   isSlowStable demo_two \<and>
   3 \<notin> set (registeredImages demo_two) \<and>
   tryUpgradeImage 3 demo_two = demo_two \<and>
   isUpgraded 1 demo_two \<and>
   tryUpgradeImage 1 demo_two = demo_two \<and>
   2 \<in> set (registeredImages demo_two) \<and>
   \<not> isUpgraded 2 demo_two \<and>
   \<not> isVisible 2 demo_two \<and>
   isUpgraded 2 (tryUpgradeImage 2 demo_two) \<and>
   \<not> isUpgraded 2 (fireTimer 1 demo_visible) \<and>
   \<not> isUpgraded 2 (ioEntry (2, False) demo_two) \<and>
   \<not> isUpgraded 2 (step (Intersections [(2, False), (1, False), (1, True)]) demo_two) \<and>
   \<not> isUpgraded 2 (step (Scroll 10 1) demo_two) \<and>
   \<not> isUpgraded 2
       (run [RegisterImage 1 demo_image, RegisterImage 2 demo_image,
             Intersections [(1, True)], TimerFired 1, Scroll 10 1,
             Intersections [(2, False)], RegisterImage 2 demo_image] demo_core)"
proof -
  have v: "\<not> isSlowStable demo_visible" "\<not> isVisible 2 demo_visible"
    "\<not> isUpgraded 2 demo_visible"
    by (simp_all add: demo_visible_eq isVisible_def isUpgraded_def)
  have t: "isSlowStable demo_two" "3 \<notin> set (registeredImages demo_two)"
    "isUpgraded 1 demo_two" "2 \<in> set (registeredImages demo_two)"
    "\<not> isUpgraded 2 demo_two" "\<not> isVisible 2 demo_two"
    by (simp_all add: demo_two_eq isVisible_def isUpgraded_def)
  note g = visibility_gating [where ops = exact_ops and cfg = demo_config and doc = demo_doc and scrollY = 0
      and start = 0]
  from g [where w = demo_visible and img = 1] v
  have c2: "tryUpgradeImage 1 demo_visible = demo_visible" by blast
  from g [where w = demo_two and img = 3] t
  have c5: "tryUpgradeImage 3 demo_two = demo_two" by blast
  from g [where w = demo_two and img = 1] t
  have c7: "tryUpgradeImage 1 demo_two = demo_two" by blast
  from g [where w = demo_two and img = 2] t
  have "tryUpgradeImage 2 demo_two = snd (upgradeImage 2 demo_two)" by blast
  then have c11: "isUpgraded 2 (tryUpgradeImage 2 demo_two)"
    by (simp add: demo_two_eq upgradeImage_def isUpgraded_def)
  from g [where w = demo_visible and el = 2 and h = 1] v
  have c12: "\<not> isUpgraded 2 (fireTimer 1 demo_visible)" by blast
  have "\<not> isVisible 2 (ioEntry (2, False) demo_two)" by (simp add: isVisible_ioEntry)
  with g [where w = demo_two and el = 2 and entry = "(2, False)"] t
  have c13: "\<not> isUpgraded 2 (ioEntry (2, False) demo_two)" by blast
  have "\<not> reports_visible (2::nat) (Intersections [(2, False), (1, False), (1, True)])"
    by (simp add: reports_visible_def)
  with g [where w = demo_two and el = 2
      and ev = "Intersections [(2, False), (1, False), (1, True)]"] t
  have c14: "\<not> isUpgraded 2 (step (Intersections [(2, False), (1, False), (1, True)]) demo_two)"
    by blast
  have "\<not> reports_visible (2::nat) (Scroll 10 1)" by (simp add: reports_visible_def)
  with g [where w = demo_two and el = 2 and ev = "Scroll 10 1"] t
  have c15: "\<not> isUpgraded 2 (step (Scroll 10 1) demo_two)" by blast
  have "\<forall>ev \<in> set [RegisterImage 1 demo_image, RegisterImage 2 demo_image,
             Intersections [(1, True)], TimerFired 1, Scroll 10 1,
             Intersections [(2, False)], RegisterImage 2 demo_image].
          \<not> reports_visible (2::nat) ev"
    by (simp add: reports_visible_def)
  with g [where el = 2 and evs = "[RegisterImage 1 demo_image, RegisterImage 2 demo_image,
             Intersections [(1, True)], TimerFired 1, Scroll 10 1,
             Intersections [(2, False)], RegisterImage 2 demo_image]"]
  have c16: "\<not> isUpgraded 2
       (run [RegisterImage 1 demo_image, RegisterImage 2 demo_image,
             Intersections [(1, True)], TimerFired 1, Scroll 10 1,
             Intersections [(2, False)], RegisterImage 2 demo_image] demo_core)"
    unfolding demo_core_def by blast
  show ?thesis
    by (intro conjI v(1) c2 t c5 c7 c11 c12 c13 c14 c15 c16)
qed

text \<open>
  C6, as the claim states it, fails: a configuration with the negative threshold \<open>-1\<close> is
  not rejected, and the core keeps \<open>-1\<close> as its threshold.
\<close>

theorem negative_threshold_accepted:
  "\<not> is_Rejected
       (initResourceLoader exact_ops \<lparr>slowVelocityThreshold = - 1, slowDurationMs = 200\<rparr> demo_doc 0 0) \<and>
   slowVelocityThreshold
     (config (createCore exact_ops \<lparr>slowVelocityThreshold = - 1, slowDurationMs = 200\<rparr> demo_doc 0 0)) = - 1"
  by (simp add: initResourceLoader_def createCore_eq)

text \<open>
  C6, amended. Initialisation rejects no configuration: \<^verbatim>\<open>initResourceLoader\<close> always
  returns the core that \<^verbatim>\<open>createCore\<close> builds, whose configuration is the one given,
  unchanged (a negative threshold is neither rejected nor clamped). The debounce timeout
  that initialisation starts has the delay \<^verbatim>\<open>slowDurationMs\<close>, which the window treats as
  zero when it is negative.
\<close>

theorem initialisation_never_rejects:
  "initResourceLoader ops cfg doc y t = Initialised (createCore ops cfg doc y t) \<and>
   \<not> is_Rejected (initResourceLoader ops cfg doc y t) \<and>
   config (createCore ops cfg doc y t) = cfg \<and>
   slowTimer (createCore ops cfg doc y t) = Some 1 \<and>
   timeouts (createCore ops cfg doc y t) = [(1, max 0 (slowDurationMs cfg))] \<and>
   (slowDurationMs cfg < 0 \<longrightarrow> timeouts (createCore ops cfg doc y t) = [(1, 0)])"
  by (simp add: initResourceLoader_def createCore_eq)

theorem initialisation_never_rejects_witness:
  "slowDurationMs \<lparr>slowVelocityThreshold = - 1, slowDurationMs = - 5\<rparr> < 0 \<and>
   \<not> is_Rejected
       (initResourceLoader exact_ops \<lparr>slowVelocityThreshold = - 1, slowDurationMs = - 5\<rparr> demo_doc 0 0) \<and>
   slowVelocityThreshold
     (config (createCore exact_ops \<lparr>slowVelocityThreshold = - 1, slowDurationMs = - 5\<rparr> demo_doc 0 0)) = - 1 \<and>
   timeouts (createCore exact_ops \<lparr>slowVelocityThreshold = - 1, slowDurationMs = - 5\<rparr> demo_doc 0 0)
     = [(1, 0)]"
  using initialisation_never_rejects
    [of exact_ops "\<lparr>slowVelocityThreshold = - 1, slowDurationMs = - 5\<rparr>" demo_doc 0 0]
  by simp

text \<open>
  C7, as the claim states it, fails: a core that was stable SLOW is still flagged stable
  after \<^verbatim>\<open>destroy\<close>.
\<close>

theorem destroy_keeps_stable_flag:
  "isSlowStable demo_stable \<and> isSlowStable (destroy demo_stable) \<and>
   isSlowStable
     (run [RegisterImage 1 demo_image, Intersections [(1, True)], TimerFired 1, Destroy]
        demo_core)"
  by (simp add: demo_stable_eq demo_core_eq callback_defs)

text \<open>
  C7, amended. \<^verbatim>\<open>destroy\<close> leaves \<^verbatim>\<open>isSlowStable\<close> as it was and sets \<^verbatim>\<open>slowTimer\<close> to
  \<^verbatim>\<open>null\<close>. Before it returns, the timeout that \<^verbatim>\<open>slowTimer\<close> referred to is no longer
  pending (in a core reached from \<^verbatim>\<open>createCore\<close> by any events, no timeout is), the
  scroll listener is removed so that scroll events no longer reach the core, the
  observer has no targets and no visibility entries so that its reports have no effect,
  and the set of registered images and the loader's entries are empty.
\<close>

theorem destroy_tears_down:
  "isSlowStable (destroy w) = isSlowStable w \<and>
   slowTimer (destroy w) = None \<and>
   (\<forall>h. slowTimer w = Some h \<longrightarrow> h \<notin> pending (destroy w)) \<and>
   pending (destroy (run evs (createCore ops cfg doc y t))) = {} \<and>
   scrollListener (destroy w) = False \<and>
   step (Scroll now currentY) (destroy w) = destroy w \<and>
   ioTargets (destroy w) = {} \<and>
   visibilityMap (destroy w) = Map.empty \<and>
   step (Intersections entries) (destroy w) = destroy w \<and>
   registeredImages (destroy w) = [] \<and>
   images (destroy w) = Map.empty"
proof (intro conjI allI impI)
  show "pending (destroy (run evs (createCore ops cfg doc y t))) = {}"
    by (rule pending_destroy_reachable)
  show "step (Intersections entries) (destroy w) = destroy w"
    by (simp add: destroy_eq ioCallback_def)
  show "step (Scroll now currentY) (destroy w) = destroy w"
    by (simp add: destroy_eq)
  fix h assume "slowTimer w = Some h"
  then show "h \<notin> pending (destroy w)"
    by (auto simp: destroy_eq pending_def)
qed (simp_all add: destroy_eq)

theorem destroy_tears_down_witness:
  "slowTimer demo_core = Some 1 \<and> 1 \<in> pending demo_core \<and>
   1 \<notin> pending (destroy demo_core) \<and>
   isSlowStable (destroy demo_core) = False \<and>
   isSlowStable (destroy demo_stable) = True \<and>
   slowTimer (destroy demo_core) = None \<and>
   registeredImages demo_stable = [1] \<and>
   registeredImages (destroy demo_stable) = [] \<and>
   images (destroy demo_stable) 1 = None \<and>
   visibilityMap (destroy demo_stable) 1 = None \<and>
   step (Scroll 10 500) (destroy demo_stable) = destroy demo_stable"
proof -
  have h: "slowTimer demo_core = Some 1" by (simp add: demo_core_eq)
  have p: "1 \<in> pending demo_core" by (simp add: demo_core_eq pending_def)
  have s: "isSlowStable demo_stable = True" "isSlowStable demo_core = False"
      "registeredImages demo_stable = [1]"
    by (simp_all add: demo_stable_eq demo_core_eq)
  note c = destroy_tears_down [where w = demo_core and evs = "[]" and ops = exact_ops and cfg = demo_config
      and doc = demo_doc and y = 0 and t = 0 and now = 10 and currentY = 500 and entries = "[]"]
  note d = destroy_tears_down [where w = demo_stable and evs = "[]" and ops = exact_ops and cfg = demo_config
      and doc = demo_doc and y = 0 and t = 0 and now = 10 and currentY = 500 and entries = "[]"]
  from c h have q: "1 \<notin> pending (destroy demo_core)" by blast
  from c have c1: "isSlowStable (destroy demo_core) = isSlowStable demo_core"
    and c2: "slowTimer (destroy demo_core) = None" by blast+
  from d have d1: "isSlowStable (destroy demo_stable) = isSlowStable demo_stable"
    and d2: "registeredImages (destroy demo_stable) = []"
    and d3: "images (destroy demo_stable) = Map.empty"
    and d4: "visibilityMap (destroy demo_stable) = Map.empty"
    and d5: "step (Scroll 10 500) (destroy demo_stable) = destroy demo_stable" by blast+
  show ?thesis
    by (simp only: h p q s c1 c2 d1 d2 d3 d4 d5) simp
qed





text \<open>
  C9. Registering an element with the loader again resets its \<^verbatim>\<open>upgraded\<close> flag and
  gives the element the low source of the new configuration, whatever the loader held for
  it before; in particular after a first registration and a successful upgrade. The
  tracked entry is the one of the last registration.
\<close>

theorem loader_registerImage_resets:
  "(let w' = loader_registerImage el cfg w
    in isUpgraded el w' = False \<and>
       src (elements w' el) = lowSrc cfg \<and>
       images w' el =
         Some \<lparr>lowSrc = lowSrc cfg, highSrc = highSrc cfg, element = el, upgraded = False\<rparr>) \<and>
   (let w1 = loader_registerImage el cfg1 w;
        w2 = snd (upgradeImage el w1);
        w3 = loader_registerImage el cfg2 w2
    in fst (upgradeImage el w1) = True \<and>
       isUpgraded el w2 = True \<and>
       src (elements w2 el) = highSrc cfg1 \<and>
       isUpgraded el w3 = False \<and>
       src (elements w3 el) = lowSrc cfg2 \<and>
       images w3 el =
         Some \<lparr>lowSrc = lowSrc cfg2, highSrc = highSrc cfg2, element = el, upgraded = False\<rparr>)"
  by (simp add: loader_registerImage_def upgradeImage_def isUpgraded_def Let_def)

text \<open>
  C10. After \<^verbatim>\<open>observeImage(el)\<close> the visibility entry of \<open>el\<close> is \<^verbatim>\<open>false\<close>, whatever it
  was. So \<^verbatim>\<open>isVisible(el)\<close> is false when \<^verbatim>\<open>registerImage\<close> of the core makes its check
  \<^verbatim>\<open>isSlowStable && visibility.isVisible(element)\<close>: the check always fails, the call
  does nothing beyond its first four statements, and \<^verbatim>\<open>isVisible(el)\<close> is false when it
  returns.
\<close>

theorem registration_sees_nothing_visible:
  "visibilityMap (observeImage el w) el = Some False \<and>
   isVisible el (observeImage el w) = False \<and>
   isVisible el (registerImage_setup el options w) = False \<and>
   (isSlowStable (registerImage_setup el options w) \<and>
      isVisible el (registerImage_setup el options w)) = False \<and>
   core_registerImage el options w = registerImage_setup el options w \<and>
   isVisible el (core_registerImage el options w) = False"
  by (simp add: core_registerImage_setup isVisible_registerImage_setup)
    (simp add: observeImage_def isVisible_def)

end
